theory Spec2Isabelle
  imports Complex_Main
begin

section \<open>JavaScript numbers\<close>







section \<open>Request timing (src/utils/request-timing.ts)\<close>

text \<open>
  Every call of \<open>Math.random()\<close> is an explicit argument \<open>rnd\<close> with
  \<open>0 \<le> rnd < 1\<close>, one argument per call in the order the source evaluates them.
  Logging is not modelled.
\<close>

record RequestStats =
  totalRequests :: nat
  averageResponseTime :: real
  lastRequestTime :: int
  minDelay :: real
  maxDelay :: real


definition calculateAdaptiveDelay :: "real \<Rightarrow> RequestStats \<Rightarrow> real" where
  "calculateAdaptiveDelay rnd stats =
     (if totalRequests stats = 0 then 100 + rnd * 200
      else
        let requestFatigueFactor = min (real (totalRequests stats) * 50) 500;
            baseDelay =
              (if averageResponseTime stats < 500 then 200
               else if averageResponseTime stats < 2000 then 500
               else 1000);
            randomFactor = 0.5 + rnd;
            delay = (baseDelay + requestFatigueFactor) * randomFactor
        in max (minDelay stats) (min (maxDelay stats) delay))"





definition calculateExponentialBackoff :: "real \<Rightarrow> int \<Rightarrow> real" where
  "calculateExponentialBackoff rnd attemptNumber =
     (let baseDelay = 1000;
          exponentialDelay = baseDelay * 2 powr (real_of_int (attemptNumber - 1));
          maxDelay = 30000;
          randomJitter = rnd * 1000
      in min (exponentialDelay + randomJitter) maxDelay)"

record NetworkBehaviorProfile =
  minRequestDelay :: real
  maxRequestDelay :: real
  requestVariability :: real
  responseTimeMultiplier :: real
  readingPaceMultiplier :: real

definition generateNetworkProfile ::
  "real \<Rightarrow> real \<Rightarrow> real \<Rightarrow> real \<Rightarrow> real \<Rightarrow> NetworkBehaviorProfile" where
  "generateNetworkProfile r1 r2 r3 r4 r5 =
     \<lparr>minRequestDelay = 100 + r1 * 300,
      maxRequestDelay = 1500 + r2 * 1500,
      requestVariability = 0.3 + r3 * 0.4,
      responseTimeMultiplier = 0.8 + r4 * 0.4,
      readingPaceMultiplier = 0.7 + r5 * 0.6\<rparr>"


section \<open>Strings\<close>



fun startsWith :: "string \<Rightarrow> string \<Rightarrow> bool" where
  "startsWith s [] = True"
| "startsWith [] (p # ps) = False"
| "startsWith (c # cs) (p # ps) = (c = p \<and> startsWith cs ps)"

fun str_includes :: "string \<Rightarrow> string \<Rightarrow> bool" where
  "str_includes [] sub = startsWith [] sub"
| "str_includes (c # cs) sub = (startsWith (c # cs) sub \<or> str_includes cs sub)"

fun join :: "string \<Rightarrow> string list \<Rightarrow> string" where
  "join sep [] = []"
| "join sep [x] = x"
| "join sep (x # y # ys) = x @ sep @ join sep (y # ys)"


section \<open>Recovery level of the browser manager (src/server/modules/BrowserManager.ts)\<close>

text \<open>
  An \<open>Error\<close> carries its message; the optional parameter \<open>error?: Error\<close> is an
  \<open>option\<close>. The method reads nothing but the message.
\<close>

datatype Error = Error (message: string)



section \<open>The pure logic module (src/utils/puppeteer-logic.ts)\<close>

text \<open>
  The repository tests \<open>determineRecoveryLevel(error, environment)\<close> and
  \<open>calculateRetryDelay(attempt, analysis)\<close> of \<open>utils/puppeteer-logic.ts\<close> in
  \<open>utils/__tests__/puppeteer-logic.test.ts\<close>. The source of the module itself was
  not available; its two functions are written here from sections 3, 4.2 and 4.3 of the
  specification, and the records are those of section 3.
\<close>

record EnvironmentSnapshot =
  hasBrowser :: bool
  isBrowserConnected :: bool
  hasValidPage :: bool
  operationCount :: nat

record ErrorAnalysis =
  isTimeout :: bool
  isNavigation :: bool
  isConnection :: bool
  isDetachedFrame :: bool
  isCaptcha :: bool
  consecutiveTimeouts :: nat
  consecutiveNavigationErrors :: nat

text \<open>
  Modelled from the spec: the critical message check of \<open>determineRecoveryLevel\<close> in
  \<open>utils/puppeteer-logic.ts\<close>, which is missing (section 4.2, step 2). The raw message
  contains "frame detached", "session closed" or "target closed".
\<close>

definition logic_criticalMessage :: "string \<Rightarrow> bool" where
  "logic_criticalMessage msg =
     (str_includes msg ''frame detached''
      \<or> str_includes msg ''session closed''
      \<or> str_includes msg ''target closed'')"

text \<open>
  Modelled from the spec: \<open>determineRecoveryLevel\<close> of \<open>utils/puppeteer-logic.ts\<close>,
  which is missing (section 4.2). Decision order, first match wins: no error gives 1; a
  raw message that contains "frame detached", "session closed" or "target closed" gives
  3; an environment with \<open>hasBrowser\<close> or \<open>isBrowserConnected\<close> false gives 3; one
  with \<open>hasValidPage\<close> false gives 2; otherwise 1. The specification does not say
  what a call with an error and without an environment returns, so the environment is
  an argument here.
\<close>

definition logic_determineRecoveryLevel :: "Error option \<Rightarrow> EnvironmentSnapshot \<Rightarrow> nat" where
  "logic_determineRecoveryLevel rawError environment =
     (case rawError of
        None \<Rightarrow> 1
      | Some e \<Rightarrow>
          if logic_criticalMessage (message e) then 3
          else if \<not> hasBrowser environment \<or> \<not> isBrowserConnected environment then 3
          else if \<not> hasValidPage environment then 2
          else 1)"

text \<open>
  Modelled from the spec: the floor that the category overrides of
  \<open>calculateRetryDelay\<close> in \<open>utils/puppeteer-logic.ts\<close>, which is missing, put under
  the delay (section 4.3): 5000 for a timeout, 8000 for a navigation error, the maximum
  when both apply, never the sum.
\<close>

definition categoryFloor :: "ErrorAnalysis \<Rightarrow> real" where
  "categoryFloor analysis =
     max (if isTimeout analysis then 5000 else 0) (if isNavigation analysis then 8000 else 0)"

text \<open>
  Modelled from the spec: \<open>calculateRetryDelay\<close> of \<open>utils/puppeteer-logic.ts\<close>, which
  is missing (section 4.3). Exponential backoff \<open>1000 * 2 ^ attempt\<close> plus a jitter
  drawn from [0, 1000); the category overrides raise the floor before the cap; the
  fatigue counters add a further increment; the result is capped at 30000, the ceiling
  that section 3 puts on every computed delay. Section 4.3 gives no formula for the
  fatigue increment (it says bounded, with diminishing returns, growing with the
  consecutive failures), so the increment is the argument \<open>fatigue\<close>, a function of
  the analysis.
\<close>

definition calculateRetryDelay ::
  "real \<Rightarrow> (ErrorAnalysis \<Rightarrow> real) \<Rightarrow> nat \<Rightarrow> ErrorAnalysis \<Rightarrow> real" where
  "calculateRetryDelay jitter fatigue attemptNumber analysis =
     (let backoff = 1000 * 2 ^ attemptNumber + jitter;
          raised = max backoff (categoryFloor analysis);
          delay = raised + fatigue analysis
      in min delay 30000)"


section \<open>Launch options and their merge (src/server/modules/BrowserManager.ts)\<close>

text \<open>
  Of Puppeteer's \<open>LaunchOptions\<close> the model keeps the array option \<open>args\<close>, which the
  security validation reads, and the scalar option \<open>headless\<close>; an absent key is
  \<open>None\<close>. \<open>deepMerge\<close> is the source's function at this type: for two arrays under
  the key \<open>args\<close> it drops from the target every flag (an argument starting with two
  dashes) whose prefix up to the first equals sign starts some argument of the source,
  appends the source and removes duplicates as \<open>new Set\<close> does (the first
  occurrence stays); for any other key the value of the source wins.
\<close>

record LaunchOptions =
  args :: "string list option"
  headless :: "bool option"

definition emptyOptions :: LaunchOptions where
  "emptyOptions = \<lparr>args = None, headless = None\<rparr>"

definition setDedupe :: "'a list \<Rightarrow> 'a list" where
  "setDedupe xs = rev (remdups (rev xs))"

definition argPrefix :: "string \<Rightarrow> string" where
  "argPrefix arg =
     (if str_includes arg ''='' then takeWhile (\<lambda>c. c \<noteq> CHR ''='') arg else arg)"

definition mergeArgs :: "string list \<Rightarrow> string list \<Rightarrow> string list" where
  "mergeArgs targetVal sourceVal =
     setDedupe
       (filter
          (\<lambda>arg. \<not> list_ex
                      (\<lambda>launchArg. startsWith arg ''--'' \<and> startsWith launchArg (argPrefix arg))
                      sourceVal)
          targetVal
        @ sourceVal)"

definition deepMerge :: "LaunchOptions \<Rightarrow> LaunchOptions \<Rightarrow> LaunchOptions" where
  "deepMerge target source =
     \<lparr>args =
        (case args source of
           None \<Rightarrow> args target
         | Some sourceVal \<Rightarrow>
             (case args target of
                Some targetVal \<Rightarrow> Some (mergeArgs targetVal sourceVal)
              | None \<Rightarrow> Some sourceVal)),
      headless =
        (case headless source of
           None \<Rightarrow> headless target
         | Some sourceVal \<Rightarrow> Some sourceVal)\<rparr>"

definition DANGEROUS_ARGS :: "string list" where
  "DANGEROUS_ARGS =
     [''--no-sandbox'',
      ''--disable-setuid-sandbox'',
      ''--single-process'',
      ''--disable-web-security'',
      ''--ignore-certificate-errors'',
      ''--disable-features=IsolateOrigins'',
      ''--disable-site-isolation-trials'',
      ''--allow-running-insecure-content'']"

definition dangerousArgsOf :: "string list \<Rightarrow> string list" where
  "dangerousArgsOf as =
     filter (\<lambda>arg. list_ex (\<lambda>dangerousArg. startsWith arg dangerousArg) DANGEROUS_ARGS) as"


section \<open>The browser manager (src/server/modules/BrowserManager.ts)\<close>

text \<open>
  The object's state is a record that every method takes and returns. A page or browser
  handle carries the one bit the methods read (\<open>isClosed()\<close>, \<open>connected\<close>); a null
  handle is \<open>None\<close>. Three fields are not in the source: \<open>launched\<close> records the
  configuration of every \<open>puppeteer.launch\<close> call, \<open>logged\<close> every line handed to
  the logger, and \<open>previousSharesArgs\<close> says that \<open>this.previousLaunchOptions.args\<close>
  and \<open>this.launchOptions.args\<close> are one and the same array, which the values of the
  two options cannot tell. The fields that the modelled methods never touch
  (\<open>searchInputSelector\<close>, \<open>lastSearchTime\<close>, \<open>operationCount\<close>) are left out.

  What lies outside the object is passed in: the process environment and the outcomes
  of the Puppeteer calls (\<open>launch\<close> with the first page of the new browser, and
  whether \<open>page.close()\<close> and \<open>browser.close()\<close> reject). In the environment,
  \<open>PUPPETEER_LAUNCH_OPTIONS\<close> is \<open>None\<close> when the variable is unset or empty,
  \<open>Some (Inl msg)\<close> when \<open>JSON.parse\<close> throws an error with the message \<open>msg\<close>
  (the source logs a warning and continues with the empty object) and
  \<open>Some (Inr c)\<close> when it parses to the options object \<open>c\<close>; \<open>uid\<close> is the user id
  where \<open>process.getuid\<close> exists. A thrown or rejected error is \<open>Inl\<close>.
\<close>

datatype Page = Page (isClosed: bool)

datatype Browser = Browser (connected: bool)

datatype LogEntry = LogInfo string | LogWarn string string | LogError string string

record BrowserManager =
  browser :: "Browser option"
  page :: "Page option"
  isInitializing :: bool
  idleTimeout :: "nat option"
  previousLaunchOptions :: "LaunchOptions option"
  launchOptions :: LaunchOptions
  allowDangerous :: bool
  previousSharesArgs :: bool
  launched :: "LaunchOptions list"
  logged :: "LogEntry list"

record ProcessEnv =
  PUPPETEER_LAUNCH_OPTIONS :: "(string + LaunchOptions) option"
  ALLOW_DANGEROUS :: "string option"
  uid :: "nat option"

record Puppeteer =
  launch :: "LaunchOptions \<Rightarrow> Error + (Browser \<times> Page)"
  pageClose :: "Error option"
  browserClose :: "Error option"

record InitOptions =
  opt_launchOptions :: "LaunchOptions option"
  opt_allowDangerous :: "bool option"

definition newBrowserManager :: BrowserManager where
  "newBrowserManager =
     \<lparr>browser = None, page = None, isInitializing = False, idleTimeout = None,
      previousLaunchOptions = None, launchOptions = emptyOptions, allowDangerous = False,
      previousSharesArgs = False, launched = [], logged = []\<rparr>"

definition rootAdjust :: "ProcessEnv \<Rightarrow> LaunchOptions \<Rightarrow> LaunchOptions" where
  "rootAdjust env mergedConfig =
     (if uid env = Some 0
      then
        let as = (case args mergedConfig of None \<Rightarrow> [] | Some as \<Rightarrow> as)
        in mergedConfig\<lparr>args :=
             Some (if ''--no-sandbox'' \<in> set as then as else as @ [''--no-sandbox''])\<rparr>
      else mergedConfig)"

definition envConfigOf :: "ProcessEnv \<Rightarrow> LaunchOptions" where
  "envConfigOf env =
     (case PUPPETEER_LAUNCH_OPTIONS env of
        None \<Rightarrow> emptyOptions
      | Some (Inl msg) \<Rightarrow> emptyOptions
      | Some (Inr c) \<Rightarrow> c)"

definition parseWarning :: "ProcessEnv \<Rightarrow> LogEntry list" where
  "parseWarning env =
     (case PUPPETEER_LAUNCH_OPTIONS env of
        None \<Rightarrow> []
      | Some (Inl msg) \<Rightarrow> [LogWarn ''Failed to parse PUPPETEER_LAUNCH_OPTIONS:'' msg]
      | Some (Inr c) \<Rightarrow> [])"

definition instanceOptionsOf :: "InitOptions \<Rightarrow> BrowserManager \<Rightarrow> LaunchOptions" where
  "instanceOptionsOf options this =
     deepMerge (launchOptions this)
       (case opt_launchOptions options of None \<Rightarrow> emptyOptions | Some l \<Rightarrow> l)"

definition mergedConfigOf :: "ProcessEnv \<Rightarrow> InitOptions \<Rightarrow> BrowserManager \<Rightarrow> LaunchOptions" where
  "mergedConfigOf env options this =
     rootAdjust env (deepMerge (envConfigOf env) (instanceOptionsOf options this))"

text \<open>
  The \<open>args\<close> arrays are objects, and two of the source's steps hand one on instead
  of copying it.

  When the environment configuration has no \<open>args\<close> and the instance options have,
  \<open>deepMerge\<close> puts the instance's own array into the merged configuration, so the
  \<open>push\<close> of \<open>--no-sandbox\<close> for root changes \<open>this.launchOptions.args\<close> as well
  (\<open>pushReachesInstance\<close>). In every other case the merged array is a new one.

  When the call passes no \<open>args\<close>, the new \<open>this.launchOptions\<close> is a shallow copy of
  the old one and keeps its array; the old object is what \<open>previousLaunchOptions\<close>
  points to after a call that got past the validation. So if the two shared the array
  before the call they still do (\<open>stillShared\<close>), and a push that reaches the one
  reaches the other.
\<close>

definition pushReachesInstance :: "ProcessEnv \<Rightarrow> InitOptions \<Rightarrow> BrowserManager \<Rightarrow> bool" where
  "pushReachesInstance env options this =
     (uid env = Some 0 \<and> args (envConfigOf env) = None
      \<and> args (instanceOptionsOf options this) \<noteq> None)"

definition stillShared :: "InitOptions \<Rightarrow> BrowserManager \<Rightarrow> bool" where
  "stillShared options this =
     (previousSharesArgs this
      \<and> (case opt_launchOptions options of None \<Rightarrow> True | Some l \<Rightarrow> args l = None))"

definition launchOptionsAfterMerge ::
  "ProcessEnv \<Rightarrow> InitOptions \<Rightarrow> BrowserManager \<Rightarrow> LaunchOptions" where
  "launchOptionsAfterMerge env options this =
     (if pushReachesInstance env options this
      then (instanceOptionsOf options this)\<lparr>args := args (mergedConfigOf env options this)\<rparr>
      else instanceOptionsOf options this)"

definition previousAfterMerge ::
  "ProcessEnv \<Rightarrow> InitOptions \<Rightarrow> BrowserManager \<Rightarrow> LaunchOptions option" where
  "previousAfterMerge env options this =
     (if pushReachesInstance env options this \<and> stillShared options this
      then map_option (\<lambda>previous. previous\<lparr>args := args (mergedConfigOf env options this)\<rparr>)
             (previousLaunchOptions this)
      else previousLaunchOptions this)"

definition dangerousMessage :: "string list \<Rightarrow> string" where
  "dangerousMessage dangerousArgs =
     ''Dangerous browser arguments detected: '' @ join '', '' dangerousArgs @ ''. ''
       @ ''Set allowDangerous: true to override.''"

definition defaultLaunchArgs :: LaunchOptions where
  "defaultLaunchArgs =
     \<lparr>args = Some [''--no-sandbox'', ''--disable-setuid-sandbox'', ''--disable-dev-shm-usage''],
      headless = Some True\<rparr>"

definition ensureBrowser ::
  "ProcessEnv \<Rightarrow> Puppeteer \<Rightarrow> InitOptions \<Rightarrow> BrowserManager
     \<Rightarrow> (Error + unit) \<times> BrowserManager" where
  "ensureBrowser env pptr options this =
     (let this1 = this
            \<lparr>launchOptions := launchOptionsAfterMerge env options this,
             allowDangerous :=
               (case opt_allowDangerous options of None \<Rightarrow> False | Some b \<Rightarrow> b),
             previousLaunchOptions := previousAfterMerge env options this,
             previousSharesArgs := stillShared options this,
             logged := logged this @ parseWarning env\<rparr>;
          mergedConfig = mergedConfigOf env options this;
          dangerousArgs =
            (case args mergedConfig of None \<Rightarrow> [] | Some as \<Rightarrow> dangerousArgsOf as)
      in
        if dangerousArgs \<noteq> []
           \<and> \<not> (allowDangerous this1 \<or> ALLOW_DANGEROUS env = Some ''true'')
        then (Inl (Error (dangerousMessage dangerousArgs)), this1)
        else
          let this2 =
                (if (case browser this1 of Some b \<Rightarrow> \<not> connected b | None \<Rightarrow> False)
                    \<or> Some (launchOptions this1) \<noteq> previousLaunchOptions this1
                 then this1\<lparr>browser := None, page := None\<rparr>
                 else this1);
              this3 = this2\<lparr>previousLaunchOptions := Some (launchOptions this2),
                          previousSharesArgs := (args (launchOptions this2) \<noteq> None)\<rparr>
          in
            (case browser this3 of
               Some b \<Rightarrow> (Inr (), this3)
             | None \<Rightarrow>
                 let config = deepMerge defaultLaunchArgs mergedConfig;
                     this4 = this3\<lparr>launched := launched this3 @ [config]\<rparr>
                 in
                   (case launch pptr config of
                      Inl e \<Rightarrow> (Inl e, this4)
                    | Inr (b, p) \<Rightarrow> (Inr (), this4\<lparr>browser := Some b, page := Some p\<rparr>))))"

definition initialize ::
  "ProcessEnv \<Rightarrow> Puppeteer \<Rightarrow> InitOptions \<Rightarrow> BrowserManager
     \<Rightarrow> (Error + unit) \<times> BrowserManager" where
  "initialize env pptr options this =
     (if isInitializing this
      then (Inr (),
            this\<lparr>logged :=
              logged this @ [LogInfo ''Browser initialization already in progress...'']\<rparr>)
      else
        (case ensureBrowser env pptr options (this\<lparr>isInitializing := True\<rparr>) of
           (Inr u, this1) \<Rightarrow>
             (Inr (),
              this1\<lparr>logged := logged this1 @ [LogInfo ''BrowserManager initialized successfully''],
                    isInitializing := False\<rparr>)
         | (Inl e, this1) \<Rightarrow>
             (Inl e,
              this1\<lparr>logged :=
                      logged this1
                        @ [LogError ''BrowserManager initialization failed:'' (message e)],
                    isInitializing := False\<rparr>)))"

definition isReady :: "BrowserManager \<Rightarrow> bool" where
  "isReady this =
     (browser this \<noteq> None
      \<and> (case page this of None \<Rightarrow> False | Some p \<Rightarrow> \<not> isClosed p)
      \<and> \<not> isInitializing this)"

text \<open>
  \<open>cleanup\<close> is one \<open>try\<close> block with one \<open>catch\<close>: the two awaited \<open>close()\<close>
  calls are the statements that can throw, and a throw skips the rest of the block.
  \<open>closePage\<close> and \<open>closeBrowser\<close> are the two guarded calls; a handle that
  closed successfully reports so afterwards.
\<close>

definition closePage :: "Puppeteer \<Rightarrow> BrowserManager \<Rightarrow> Error + BrowserManager" where
  "closePage pptr this =
     (case page this of
        None \<Rightarrow> Inr this
      | Some p \<Rightarrow>
          if \<not> isClosed p
          then (case pageClose pptr of
                  Some e \<Rightarrow> Inl e
                | None \<Rightarrow> Inr (this\<lparr>page := Some (Page True)\<rparr>))
          else Inr this)"

definition closeBrowser :: "Puppeteer \<Rightarrow> BrowserManager \<Rightarrow> Error + BrowserManager" where
  "closeBrowser pptr this =
     (case browser this of
        None \<Rightarrow> Inr this
      | Some b \<Rightarrow>
          if connected b
          then (case browserClose pptr of
                  Some e \<Rightarrow> Inl e
                | None \<Rightarrow> Inr (this\<lparr>browser := Some (Browser False)\<rparr>))
          else Inr this)"

definition cleanupCaught :: "Error \<Rightarrow> BrowserManager \<Rightarrow> (Error + unit) \<times> BrowserManager" where
  "cleanupCaught e this =
     (Inr (),
      this\<lparr>logged :=
        logged this @ [LogError ''Error during BrowserManager cleanup:'' (message e)]\<rparr>)"

definition cleanup :: "Puppeteer \<Rightarrow> BrowserManager \<Rightarrow> (Error + unit) \<times> BrowserManager" where
  "cleanup pptr this =
     (let this1 =
            (case idleTimeout this of
               Some t \<Rightarrow> this\<lparr>idleTimeout := None\<rparr>
             | None \<Rightarrow> this)
      in
        (case closePage pptr this1 of
           Inl e \<Rightarrow> cleanupCaught e this1
         | Inr this2 \<Rightarrow>
             (case closeBrowser pptr this2 of
                Inl e \<Rightarrow> cleanupCaught e this2
              | Inr this3 \<Rightarrow>
                  (Inr (),
                   this3\<lparr>page := None, browser := None, isInitializing := False,
                         previousLaunchOptions := None, previousSharesArgs := False,
                         logged := logged this3 @ [LogInfo ''BrowserManager cleanup completed'']\<rparr>))))"


section \<open>Session store (src/utils/session-manager.ts)\<close>

text \<open>
  The file system is a map from paths to file contents. A file holds text that
  \<open>JSON.parse\<close> rejects, or the JSON of a session: its cookies, its local storage and
  its timestamp. The timestamp is a whole number of milliseconds, as
  \<open>saveSessionCookies\<close> writes it from \<open>Date.now()\<close>, or \<open>None\<close> when the JSON has
  no \<open>timestamp\<close> that counts as a number (the age is then \<open>NaN\<close> in the source, and
  every comparison with it is false). An absent list is the empty list. \<open>path.join\<close> of Node is the argument \<open>pathJoin\<close>, and
  \<open>Date.now()\<close> the argument \<open>now\<close>.

  Any awaited call can reject: \<open>Faults\<close> says which of \<open>fs.stat\<close>, \<open>fs.readFile\<close>,
  \<open>fs.unlink\<close>, \<open>page.setCookie\<close> and \<open>page.evaluateOnNewDocument\<close> do.
  \<open>fs.stat\<close> and \<open>fs.unlink\<close> also reject when no file is at the path. The page
  keeps the cookies set on it and the storage snapshots registered with
  \<open>evaluateOnNewDocument\<close>. A rejecting \<open>fs.stat\<close> returns false from its own
  \<open>catch\<close>, a rejecting \<open>fs.unlink\<close> is swallowed by \<open>.catch(() => {})\<close>, and the
  whole body of \<open>restoreSessionCookies\<close> sits in a \<open>try\<close> whose \<open>catch\<close> returns
  false.
\<close>

type_synonym Cookie = "string \<times> string"

record StoredSession =
  cookies :: "Cookie list"
  localStorage :: "(string \<times> string) list"
  timestamp :: "int option"

datatype FileData = SessionJson StoredSession | NotJson string

type_synonym FileSystem = "string \<rightharpoonup> FileData"

record PageState =
  pageCookies :: "Cookie list"
  newDocumentStorage :: "(string \<times> string) list list"

record Faults =
  statFails :: bool
  readFileFails :: bool
  unlinkFails :: bool
  setCookieFails :: bool
  evaluateOnNewDocumentFails :: bool

definition SESSION_STORAGE_DIR :: string where
  "SESSION_STORAGE_DIR = ''./session-storage''"

definition SESSION_EXPIRY_HOURS :: int where
  "SESSION_EXPIRY_HOURS = 24"

definition getSessionPath :: "(string \<Rightarrow> string \<Rightarrow> string) \<Rightarrow> string \<Rightarrow> string" where
  "getSessionPath pathJoin sessionId =
     (let dir = (if SESSION_STORAGE_DIR = [] then ''./session-storage'' else SESSION_STORAGE_DIR)
      in pathJoin dir (sessionId @ ''.json''))"

text \<open>
  \<open>joinRelative\<close> is what \<open>path.join\<close> returns for a directory written \<open>./name\<close>
  and a plain file name: Node normalises the joined path, which drops the leading
  \<open>./\<close>.
\<close>

definition joinRelative :: "string \<Rightarrow> string \<Rightarrow> string" where
  "joinRelative dir file = drop 2 dir @ ''/'' @ file"

definition expiryMs :: int where
  "expiryMs = (if SESSION_EXPIRY_HOURS = 0 then 24 else SESSION_EXPIRY_HOURS) * 60 * 60 * 1000"

definition unlink :: "Faults \<Rightarrow> FileSystem \<Rightarrow> string \<Rightarrow> Error option \<times> FileSystem" where
  "unlink faults fs path =
     (if unlinkFails faults then (Some (Error ''unlink failed''), fs)
      else
        (case fs path of
           None \<Rightarrow> (Some (Error ''ENOENT''), fs)
         | Some d \<Rightarrow> (None, fs(path := None))))"

definition setCookie :: "Faults \<Rightarrow> PageState \<Rightarrow> Cookie list \<Rightarrow> Error + PageState" where
  "setCookie faults pg cs =
     (if setCookieFails faults then Inl (Error ''setCookie failed'')
      else Inr (pg\<lparr>pageCookies := pageCookies pg @ cs\<rparr>))"

definition evaluateOnNewDocument ::
  "Faults \<Rightarrow> PageState \<Rightarrow> (string \<times> string) list \<Rightarrow> Error + PageState" where
  "evaluateOnNewDocument faults pg storage =
     (if evaluateOnNewDocumentFails faults then Inl (Error ''evaluateOnNewDocument failed'')
      else Inr (pg\<lparr>newDocumentStorage := newDocumentStorage pg @ [storage]\<rparr>))"

definition isExpired :: "int \<Rightarrow> StoredSession \<Rightarrow> bool" where
  "isExpired now session =
     (case timestamp session of
        None \<Rightarrow> False
      | Some t \<Rightarrow> now - t > expiryMs)"

definition restoreSessionCookies ::
  "(string \<Rightarrow> string \<Rightarrow> string) \<Rightarrow> int \<Rightarrow> Faults \<Rightarrow> FileSystem \<Rightarrow> PageState \<Rightarrow> string
     \<Rightarrow> bool \<times> FileSystem \<times> PageState" where
  "restoreSessionCookies pathJoin now faults fs pg sessionId =
     (let sessionPath = getSessionPath pathJoin sessionId
      in
        (case fs sessionPath of
           None \<Rightarrow> (False, fs, pg)
         | Some content \<Rightarrow>
             if statFails faults then (False, fs, pg)
             else if readFileFails faults then (False, fs, pg)
             else
               (case content of
                  NotJson raw \<Rightarrow> (False, fs, pg)
                | SessionJson session \<Rightarrow>
                    if isExpired now session
                    then (False, snd (unlink faults fs sessionPath), pg)
                    else
                      (case (if cookies session \<noteq> []
                             then setCookie faults pg (cookies session)
                             else Inr pg) of
                         Inl e \<Rightarrow> (False, fs, pg)
                       | Inr pg1 \<Rightarrow>
                           (case (if localStorage session \<noteq> []
                                  then evaluateOnNewDocument faults pg1 (localStorage session)
                                  else Inr pg1) of
                              Inl e \<Rightarrow> (False, fs, pg1)
                            | Inr pg2 \<Rightarrow> (True, fs, pg2))))))"


section \<open>The chat tool (src/tools/chatPerplexity.ts)\<close>

text \<open>
  The three injected functions are arguments, and \<open>crypto.randomUUID()\<close> is the
  argument \<open>randomUUID\<close>. What the injected functions work on is the world: the
  arrays of chat messages that exist, by address, and the state \<open>'db\<close> of the store.
  \<open>getChatHistory\<close> returns the address of an array (and the world, in which it may
  have made a new array); \<open>saveChatMessage\<close> returns the world after the save, in which
  it may have changed any array; \<open>performSearch\<close> runs in the world it is handed.

  The tool calls \<open>getChatHistory\<close>, then \<open>saveChatMessage\<close>, and only then walks
  through the array it got, so the loop reads that array as it is after the save. The
  third component of the result lists the calls in the order the tool makes them.
\<close>

datatype Role = User | Assistant

record ChatMessage =
  role :: Role
  content :: string

record ChatPerplexityArgs =
  arg_message :: string
  arg_chat_id :: "string option"
  arg_launchOptions :: "LaunchOptions option"
  arg_allowDangerous :: "bool option"

record 'db World =
  arrays :: "nat \<Rightarrow> ChatMessage list"
  store :: 'db

datatype Call =
    GetChatHistory string
  | SaveChatMessage string ChatMessage
  | PerformSearch string InitOptions

definition newline :: string where
  "newline = [CHR 0x0A]"

definition promptLine :: "ChatMessage \<Rightarrow> string" where
  "promptLine msg =
     (if role msg = User
      then ''User: '' @ content msg @ newline
      else ''Assistant: '' @ content msg @ newline)"

fun appendHistory :: "string \<Rightarrow> ChatMessage list \<Rightarrow> string" where
  "appendHistory conversationPrompt [] = conversationPrompt"
| "appendHistory conversationPrompt (msg # rest) =
     appendHistory (conversationPrompt @ promptLine msg) rest"

definition chatPerplexity ::
  "string \<Rightarrow> ('db World \<Rightarrow> string \<Rightarrow> InitOptions \<Rightarrow> 'r)
     \<Rightarrow> ('db World \<Rightarrow> string \<Rightarrow> nat \<times> 'db World)
     \<Rightarrow> ('db World \<Rightarrow> string \<Rightarrow> ChatMessage \<Rightarrow> 'db World) \<Rightarrow> ChatPerplexityArgs \<Rightarrow> 'db World
     \<Rightarrow> 'r \<times> 'db World \<times> Call list" where
  "chatPerplexity randomUUID performSearch getChatHistory saveChatMessage toolArgs w =
     (let chat_id = (case arg_chat_id toolArgs of None \<Rightarrow> randomUUID | Some c \<Rightarrow> c);
          history = fst (getChatHistory w chat_id);
          w1 = snd (getChatHistory w chat_id);
          userMessage = \<lparr>role = User, content = arg_message toolArgs\<rparr>;
          w2 = saveChatMessage w1 chat_id userMessage;
          conversationPrompt =
            appendHistory [] (arrays w2 history) @ ''User: '' @ arg_message toolArgs @ newline;
          options = \<lparr>opt_launchOptions = arg_launchOptions toolArgs,
                     opt_allowDangerous = arg_allowDangerous toolArgs\<rparr>
      in (performSearch w2 conversationPrompt options,
          w2,
          [GetChatHistory chat_id,
           SaveChatMessage chat_id userMessage,
           PerformSearch conversationPrompt options]))"

text \<open>
  Two stores with which the tool can be run. The first keeps one list of messages per
  chat id and answers \<open>getChatHistory\<close> with a new array that holds a copy, as a store
  that reads from a database does; its state is the lists and the next free address.
  The second keeps the address of one array per chat id, answers \<open>getChatHistory\<close>
  with that address and saves a message by appending to that very array.
\<close>

definition snapshotGetChatHistory ::
  "((string \<Rightarrow> ChatMessage list) \<times> nat) World \<Rightarrow> string
     \<Rightarrow> nat \<times> ((string \<Rightarrow> ChatMessage list) \<times> nat) World" where
  "snapshotGetChatHistory w chat_id =
     (let address = snd (store w)
      in (address,
          w\<lparr>arrays := (arrays w)(address := fst (store w) chat_id),
            store := (fst (store w), address + 1)\<rparr>))"

definition snapshotSaveChatMessage ::
  "((string \<Rightarrow> ChatMessage list) \<times> nat) World \<Rightarrow> string \<Rightarrow> ChatMessage
     \<Rightarrow> ((string \<Rightarrow> ChatMessage list) \<times> nat) World" where
  "snapshotSaveChatMessage w chat_id msg =
     w\<lparr>store := ((fst (store w))(chat_id := fst (store w) chat_id @ [msg]), snd (store w))\<rparr>"

definition liveGetChatHistory ::
  "(string \<Rightarrow> nat) World \<Rightarrow> string \<Rightarrow> nat \<times> (string \<Rightarrow> nat) World" where
  "liveGetChatHistory w chat_id = (store w chat_id, w)"

definition liveSaveChatMessage ::
  "(string \<Rightarrow> nat) World \<Rightarrow> string \<Rightarrow> ChatMessage \<Rightarrow> (string \<Rightarrow> nat) World" where
  "liveSaveChatMessage w chat_id msg =
     w\<lparr>arrays := (arrays w)(store w chat_id := arrays w (store w chat_id) @ [msg])\<rparr>"


section \<open>Properties of the rounding\<close>
















section \<open>Properties of the request timing\<close>















lemma generateNetworkProfile_ranges:
  assumes "0 \<le> r3" "r3 < 1" "0 \<le> r4" "r4 < 1" "0 \<le> r5" "r5 < 1"
  shows "requestVariability (generateNetworkProfile r1 r2 r3 r4 r5) \<in> {0.3 .. 0.7}"
    and "responseTimeMultiplier (generateNetworkProfile r1 r2 r3 r4 r5) \<in> {0.8 .. 1.2}"
    and "readingPaceMultiplier (generateNetworkProfile r1 r2 r3 r4 r5) \<in> {0.7 .. 1.3}"
  using assms by (simp_all add: generateNetworkProfile_def)

text \<open>
  Claim C7 (the code departs from it). The claim puts \<open>readingPaceMultiplier\<close> in
  [0.8, 1.2] for every draw; the source computes \<open>0.7 + Math.random() * 0.6\<close>, so a
  draw of 0.1 gives 0.76, below 0.8, and a draw of 0.9 gives 1.24, above 1.2. The other
  two multipliers stay inside their intervals (\<open>generateNetworkProfile_ranges\<close>).
\<close>

theorem C7_generateNetworkProfile_readingPace_escapes:
  "readingPaceMultiplier (generateNetworkProfile 0 0 0 0 (1/10)) = 76/100
   \<and> readingPaceMultiplier (generateNetworkProfile 0 0 0 0 (1/10)) < 0.8
   \<and> readingPaceMultiplier (generateNetworkProfile 0 0 0 0 (9/10)) = 124/100
   \<and> 1.2 < readingPaceMultiplier (generateNetworkProfile 0 0 0 0 (9/10))"
  by (simp add: generateNetworkProfile_def)

text \<open>
  Claim C9. With \<open>totalRequests = 0\<close> the function returns \<open>100 + rnd * 200\<close>, a value
  in [100, 300), and applies no clamp: whenever \<open>minDelay > 300\<close> the result lies
  outside \<open>[minDelay, maxDelay]\<close>. With \<open>totalRequests > 0\<close> the result is
  \<open>max minDelay (min maxDelay delay)\<close>, which lies in \<open>[minDelay, maxDelay]\<close> for
  every stats object whose bounds are ordered.
\<close>

theorem C9_calculateAdaptiveDelay_clamp:
  assumes "0 \<le> rnd" and "rnd < 1"
  shows "(totalRequests stats = 0 \<longrightarrow>
            calculateAdaptiveDelay rnd stats = 100 + rnd * 200
            \<and> 100 \<le> calculateAdaptiveDelay rnd stats
            \<and> calculateAdaptiveDelay rnd stats < 300
            \<and> (300 < minDelay stats \<longrightarrow>
                 calculateAdaptiveDelay rnd stats \<notin> {minDelay stats .. maxDelay stats}))
       \<and> (0 < totalRequests stats \<and> minDelay stats \<le> maxDelay stats \<longrightarrow>
            calculateAdaptiveDelay rnd stats \<in> {minDelay stats .. maxDelay stats})"
  using assms by (auto simp add: calculateAdaptiveDelay_def Let_def)

theorem C9_calculateAdaptiveDelay_clamp_witness:
  "(0::real) \<le> 1/2 \<and> (1/2::real) < 1
   \<and> calculateAdaptiveDelay (1/2)
        \<lparr>totalRequests = 0, averageResponseTime = 0, lastRequestTime = 0,
         minDelay = 400, maxDelay = 2500\<rparr> = 200
   \<and> calculateAdaptiveDelay (1/2)
        \<lparr>totalRequests = 0, averageResponseTime = 0, lastRequestTime = 0,
         minDelay = 400, maxDelay = 2500\<rparr> \<notin> {400 .. 2500}
   \<and> calculateAdaptiveDelay (1/2)
        \<lparr>totalRequests = 3, averageResponseTime = 600, lastRequestTime = 0,
         minDelay = 100, maxDelay = 2500\<rparr> \<in> {100 .. 2500}"
  using C9_calculateAdaptiveDelay_clamp
          [of "1/2" "\<lparr>totalRequests = 0, averageResponseTime = 0, lastRequestTime = 0,
                     minDelay = 400, maxDelay = 2500\<rparr>"]
        C9_calculateAdaptiveDelay_clamp
          [of "1/2" "\<lparr>totalRequests = 3, averageResponseTime = 600, lastRequestTime = 0,
                     minDelay = 100, maxDelay = 2500\<rparr>"]
  by simp


section \<open>Properties of the string functions\<close>

lemma startsWith_iff: "startsWith s p \<longleftrightarrow> (\<exists>q. s = p @ q)"
  by (induction s p rule: startsWith.induct) auto

lemma startsWith_append: "startsWith (p @ q) p"
  by (simp add: startsWith_iff)




section \<open>Properties of the recovery level\<close>


text \<open>
  Claim C1, for the two-argument \<open>determineRecoveryLevel\<close> of
  \<open>utils/puppeteer-logic.ts\<close> as section 4.2 describes it. Without an error the level
  is 1. For an error whose message has none of the critical keywords the level is 3
  when the environment has \<open>hasBrowser\<close> or \<open>isBrowserConnected\<close> false, 2 when both
  are true and \<open>hasValidPage\<close> is false, and 1 otherwise.
\<close>

theorem C1_logic_determineRecoveryLevel_environment:
  "logic_determineRecoveryLevel None environment = 1
   \<and> (\<not> logic_criticalMessage (message e)
        \<and> (\<not> hasBrowser environment \<or> \<not> isBrowserConnected environment)
      \<longrightarrow> logic_determineRecoveryLevel (Some e) environment = 3)
   \<and> (\<not> logic_criticalMessage (message e)
        \<and> hasBrowser environment \<and> isBrowserConnected environment
        \<and> \<not> hasValidPage environment
      \<longrightarrow> logic_determineRecoveryLevel (Some e) environment = 2)
   \<and> (\<not> logic_criticalMessage (message e)
        \<and> hasBrowser environment \<and> isBrowserConnected environment
        \<and> hasValidPage environment
      \<longrightarrow> logic_determineRecoveryLevel (Some e) environment = 1)"
  by (simp add: logic_determineRecoveryLevel_def)

theorem C1_logic_determineRecoveryLevel_environment_witness:
  "\<not> logic_criticalMessage (message (Error ''any''))
   \<and> logic_determineRecoveryLevel (Some (Error ''any''))
        \<lparr>hasBrowser = False, isBrowserConnected = False, hasValidPage = False,
         operationCount = 0\<rparr> = 3
   \<and> logic_determineRecoveryLevel (Some (Error ''any''))
        \<lparr>hasBrowser = True, isBrowserConnected = True, hasValidPage = False,
         operationCount = 0\<rparr> = 2
   \<and> logic_determineRecoveryLevel (Some (Error ''any''))
        \<lparr>hasBrowser = True, isBrowserConnected = True, hasValidPage = True,
         operationCount = 0\<rparr> = 1"
  using C1_logic_determineRecoveryLevel_environment
          [of "\<lparr>hasBrowser = False, isBrowserConnected = False, hasValidPage = False,
                operationCount = 0\<rparr>" "Error ''any''"]
        C1_logic_determineRecoveryLevel_environment
          [of "\<lparr>hasBrowser = True, isBrowserConnected = True, hasValidPage = False,
                operationCount = 0\<rparr>" "Error ''any''"]
        C1_logic_determineRecoveryLevel_environment
          [of "\<lparr>hasBrowser = True, isBrowserConnected = True, hasValidPage = True,
                operationCount = 0\<rparr>" "Error ''any''"]
  by (simp add: logic_criticalMessage_def)





text \<open>
  Claim C4, for \<open>calculateRetryDelay\<close> of \<open>utils/puppeteer-logic.ts\<close> as section 4.3
  describes it. For every jitter in [0, 1000) and every non-negative fatigue increment:
  the delay of attempt 2 is at least 4000 when no category flag is set and both
  counters are zero; the delay of attempt 0 is at least 5000 for a timeout and at least
  8000 for a navigation error; every delay is at most 30000. The exponential backoff of
  \<open>utils/request-timing.ts\<close> is at most 30000 as well.
\<close>

theorem C4_calculateRetryDelay_bounds:
  assumes "0 \<le> jitter" and "jitter < 1000" and "0 \<le> fatigue analysis"
  shows "(\<not> isTimeout analysis \<and> \<not> isNavigation analysis \<and> \<not> isConnection analysis
            \<and> \<not> isDetachedFrame analysis \<and> \<not> isCaptcha analysis
            \<and> consecutiveTimeouts analysis = 0 \<and> consecutiveNavigationErrors analysis = 0
          \<longrightarrow> 4000 \<le> calculateRetryDelay jitter fatigue 2 analysis)
       \<and> (isTimeout analysis \<longrightarrow> 5000 \<le> calculateRetryDelay jitter fatigue 0 analysis)
       \<and> (isNavigation analysis \<longrightarrow> 8000 \<le> calculateRetryDelay jitter fatigue 0 analysis)
       \<and> calculateRetryDelay jitter fatigue attemptNumber analysis \<le> 30000
       \<and> calculateExponentialBackoff rnd n \<le> 30000"
  using assms
  by (auto simp add: calculateRetryDelay_def categoryFloor_def calculateExponentialBackoff_def
        Let_def)

theorem C4_calculateRetryDelay_bounds_witness:
  "(0::real) \<le> 250 \<and> (250::real) < 1000
   \<and> 4000 \<le> calculateRetryDelay 250 (\<lambda>a. min (500 * real (consecutiveTimeouts a)) 5000) 2
        \<lparr>isTimeout = False, isNavigation = False, isConnection = False,
         isDetachedFrame = False, isCaptcha = False, consecutiveTimeouts = 0,
         consecutiveNavigationErrors = 0\<rparr>
   \<and> 5000 \<le> calculateRetryDelay 250 (\<lambda>a. min (500 * real (consecutiveTimeouts a)) 5000) 0
        \<lparr>isTimeout = True, isNavigation = False, isConnection = False,
         isDetachedFrame = False, isCaptcha = False, consecutiveTimeouts = 0,
         consecutiveNavigationErrors = 0\<rparr>
   \<and> 8000 \<le> calculateRetryDelay 250 (\<lambda>a. min (500 * real (consecutiveTimeouts a)) 5000) 0
        \<lparr>isTimeout = False, isNavigation = True, isConnection = False,
         isDetachedFrame = False, isCaptcha = False, consecutiveTimeouts = 0,
         consecutiveNavigationErrors = 0\<rparr>
   \<and> calculateRetryDelay 250 (\<lambda>a. min (500 * real (consecutiveTimeouts a)) 5000) 7
        \<lparr>isTimeout = True, isNavigation = False, isConnection = False,
         isDetachedFrame = False, isCaptcha = False, consecutiveTimeouts = 3,
         consecutiveNavigationErrors = 0\<rparr> \<le> 30000"
  using C4_calculateRetryDelay_bounds
          [of 250 "\<lambda>a. min (500 * real (consecutiveTimeouts a)) 5000"
              "\<lparr>isTimeout = False, isNavigation = False, isConnection = False,
                isDetachedFrame = False, isCaptcha = False, consecutiveTimeouts = 0,
                consecutiveNavigationErrors = 0\<rparr>" 0 0 0]
        C4_calculateRetryDelay_bounds
          [of 250 "\<lambda>a. min (500 * real (consecutiveTimeouts a)) 5000"
              "\<lparr>isTimeout = True, isNavigation = False, isConnection = False,
                isDetachedFrame = False, isCaptcha = False, consecutiveTimeouts = 0,
                consecutiveNavigationErrors = 0\<rparr>" 0 0 0]
        C4_calculateRetryDelay_bounds
          [of 250 "\<lambda>a. min (500 * real (consecutiveTimeouts a)) 5000"
              "\<lparr>isTimeout = False, isNavigation = True, isConnection = False,
                isDetachedFrame = False, isCaptcha = False, consecutiveTimeouts = 0,
                consecutiveNavigationErrors = 0\<rparr>" 0 0 0]
        C4_calculateRetryDelay_bounds
          [of 250 "\<lambda>a. min (500 * real (consecutiveTimeouts a)) 5000"
              "\<lparr>isTimeout = True, isNavigation = False, isConnection = False,
                isDetachedFrame = False, isCaptcha = False, consecutiveTimeouts = 3,
                consecutiveNavigationErrors = 0\<rparr>" 7 0 0]
  by simp


section \<open>Properties of the browser manager\<close>

lemma dangerousMessage_prefix:
  "startsWith (dangerousMessage ds) ''Dangerous browser arguments detected''"
proof -
  have "dangerousMessage ds
        = ''Dangerous browser arguments detected''
            @ ('': '' @ join '', '' ds @ ''. '' @ ''Set allowDangerous: true to override.'')"
    by (simp add: dangerousMessage_def)
  then show ?thesis
    by (simp only: startsWith_append)
qed

lemma dangerousArgsOf_nonempty:
  assumes "arg \<in> set as" and "dangerousArg \<in> set DANGEROUS_ARGS"
      and "startsWith arg dangerousArg"
  shows "dangerousArgsOf as \<noteq> []"
proof -
  have "list_ex (\<lambda>d. startsWith arg d) DANGEROUS_ARGS"
    using assms(2,3) unfolding list_ex_iff by blast
  then have "arg \<in> set (dangerousArgsOf as)"
    using assms(1) by (simp add: dangerousArgsOf_def)
  then show ?thesis by auto
qed

lemma ensureBrowser_rejects:
  assumes "args (mergedConfigOf env options this) = Some as"
      and "dangerousArgsOf as \<noteq> []"
      and "opt_allowDangerous options \<noteq> Some True"
      and "ALLOW_DANGEROUS env \<noteq> Some ''true''"
  shows "ensureBrowser env pptr options this
         = (Inl (Error (dangerousMessage (dangerousArgsOf as))),
            this\<lparr>launchOptions := launchOptionsAfterMerge env options this,
                 allowDangerous := False,
                 previousLaunchOptions := previousAfterMerge env options this,
                 previousSharesArgs := stillShared options this,
                 logged := logged this @ parseWarning env\<rparr>)"
proof -
  have "(case opt_allowDangerous options of None \<Rightarrow> False | Some b \<Rightarrow> b) = False"
    using assms(3) by (cases "opt_allowDangerous options") auto
  then show ?thesis
    using assms(1,2,4) by (simp add: ensureBrowser_def Let_def)
qed

lemma mergedConfigOf_test_options:
  "mergedConfigOf \<lparr>PUPPETEER_LAUNCH_OPTIONS = None, ALLOW_DANGEROUS = None, uid = Some 1000\<rparr>
     \<lparr>opt_launchOptions =
        Some \<lparr>args = Some [''--no-sandbox'', ''--disable-web-security''], headless = None\<rparr>,
      opt_allowDangerous = Some False\<rparr>
     newBrowserManager
   = \<lparr>args = Some [''--no-sandbox'', ''--disable-web-security''], headless = None\<rparr>"
  by (simp add: mergedConfigOf_def envConfigOf_def instanceOptionsOf_def newBrowserManager_def
        emptyOptions_def deepMerge_def rootAdjust_def)

text \<open>
  Claim C3. Let the merged configuration (the environment's launch options merged with
  the instance's and the call's, with \<open>--no-sandbox\<close> added for root) hold an argument
  that starts with a flag of \<open>DANGEROUS_ARGS\<close>, let the call not pass
  \<open>allowDangerous: true\<close> and let \<open>ALLOW_DANGEROUS\<close> not be \<open>true\<close>. Then
  \<open>ensureBrowser\<close> throws an error whose message starts with "Dangerous browser
  arguments detected", \<open>puppeteer.launch\<close> is not called and the browser and page
  handles stay as they were; \<open>initialize\<close>, unless another initialisation is in
  flight, passes the same error on to its caller, launches nothing and clears its
  in-flight flag.
\<close>

theorem C3_dangerous_arguments_rejected:
  assumes "args (mergedConfigOf env options this) = Some as"
      and "arg \<in> set as" and "dangerousArg \<in> set DANGEROUS_ARGS"
      and "startsWith arg dangerousArg"
      and "opt_allowDangerous options \<noteq> Some True"
      and "ALLOW_DANGEROUS env \<noteq> Some ''true''"
  shows "fst (ensureBrowser env pptr options this)
           = Inl (Error (dangerousMessage (dangerousArgsOf as)))
       \<and> startsWith (dangerousMessage (dangerousArgsOf as))
            ''Dangerous browser arguments detected''
       \<and> launched (snd (ensureBrowser env pptr options this)) = launched this
       \<and> browser (snd (ensureBrowser env pptr options this)) = browser this
       \<and> page (snd (ensureBrowser env pptr options this)) = page this
       \<and> (\<not> isInitializing this \<longrightarrow>
            fst (initialize env pptr options this)
              = Inl (Error (dangerousMessage (dangerousArgsOf as)))
            \<and> launched (snd (initialize env pptr options this)) = launched this
            \<and> browser (snd (initialize env pptr options this)) = browser this
            \<and> page (snd (initialize env pptr options this)) = page this
            \<and> \<not> isInitializing (snd (initialize env pptr options this)))"
proof -
  have ne: "dangerousArgsOf as \<noteq> []"
    using assms(2,3,4) by (rule dangerousArgsOf_nonempty)
  have m: "mergedConfigOf env options (this\<lparr>isInitializing := True\<rparr>)
           = mergedConfigOf env options this"
    by (simp add: mergedConfigOf_def instanceOptionsOf_def)
  have l: "launchOptionsAfterMerge env options (this\<lparr>isInitializing := True\<rparr>)
           = launchOptionsAfterMerge env options this"
    by (simp add: launchOptionsAfterMerge_def pushReachesInstance_def m instanceOptionsOf_def
          cong: if_cong)
  have q: "previousAfterMerge env options (this\<lparr>isInitializing := True\<rparr>)
           = previousAfterMerge env options this"
    by (simp add: previousAfterMerge_def pushReachesInstance_def stillShared_def m
          instanceOptionsOf_def cong: if_cong)
  have h: "stillShared options (this\<lparr>isInitializing := True\<rparr>) = stillShared options this"
    by (simp add: stillShared_def)
  have e1: "ensureBrowser env pptr options this
         = (Inl (Error (dangerousMessage (dangerousArgsOf as))),
            this\<lparr>launchOptions := launchOptionsAfterMerge env options this,
                 allowDangerous := False,
                 previousLaunchOptions := previousAfterMerge env options this,
                 previousSharesArgs := stillShared options this,
                 logged := logged this @ parseWarning env\<rparr>)"
    using assms(1) ne assms(5,6) by (rule ensureBrowser_rejects)
  have e2: "ensureBrowser env pptr options (this\<lparr>isInitializing := True\<rparr>)
         = (Inl (Error (dangerousMessage (dangerousArgsOf as))),
            this\<lparr>isInitializing := True,
                 launchOptions := launchOptionsAfterMerge env options this,
                 allowDangerous := False,
                 previousLaunchOptions := previousAfterMerge env options this,
                 previousSharesArgs := stillShared options this,
                 logged := logged this @ parseWarning env\<rparr>)"
    using ensureBrowser_rejects [of env options "this\<lparr>isInitializing := True\<rparr>" as pptr]
          assms(1) ne assms(5,6) m l q h
    by simp
  show ?thesis
    by (simp add: e1 e2 initialize_def dangerousMessage_prefix)
qed

theorem C3_dangerous_arguments_rejected_witness:
  "args (mergedConfigOf
           \<lparr>PUPPETEER_LAUNCH_OPTIONS = None, ALLOW_DANGEROUS = None, uid = Some 1000\<rparr>
           \<lparr>opt_launchOptions =
              Some \<lparr>args = Some [''--no-sandbox'', ''--disable-web-security''], headless = None\<rparr>,
            opt_allowDangerous = Some False\<rparr>
           newBrowserManager)
     = Some [''--no-sandbox'', ''--disable-web-security'']
   \<and> ''--disable-web-security'' \<in> set DANGEROUS_ARGS
   \<and> startsWith ''--disable-web-security'' ''--disable-web-security''
   \<and> fst (initialize
             \<lparr>PUPPETEER_LAUNCH_OPTIONS = None, ALLOW_DANGEROUS = None, uid = Some 1000\<rparr>
             \<lparr>launch = (\<lambda>c. Inr (Browser True, Page False)), pageClose = None,
              browserClose = None\<rparr>
             \<lparr>opt_launchOptions =
                Some \<lparr>args = Some [''--no-sandbox'', ''--disable-web-security''],
                      headless = None\<rparr>,
              opt_allowDangerous = Some False\<rparr>
             newBrowserManager)
       = Inl (Error (''Dangerous browser arguments detected: ''
                     @ ''--no-sandbox, --disable-web-security. ''
                     @ ''Set allowDangerous: true to override.''))
   \<and> launched (snd (initialize
             \<lparr>PUPPETEER_LAUNCH_OPTIONS = None, ALLOW_DANGEROUS = None, uid = Some 1000\<rparr>
             \<lparr>launch = (\<lambda>c. Inr (Browser True, Page False)), pageClose = None,
              browserClose = None\<rparr>
             \<lparr>opt_launchOptions =
                Some \<lparr>args = Some [''--no-sandbox'', ''--disable-web-security''],
                      headless = None\<rparr>,
              opt_allowDangerous = Some False\<rparr>
             newBrowserManager)) = []"
  using C3_dangerous_arguments_rejected
          [of "\<lparr>PUPPETEER_LAUNCH_OPTIONS = None, ALLOW_DANGEROUS = None, uid = Some 1000\<rparr>"
              "\<lparr>opt_launchOptions =
                  Some \<lparr>args = Some [''--no-sandbox'', ''--disable-web-security''],
                        headless = None\<rparr>,
                opt_allowDangerous = Some False\<rparr>"
              newBrowserManager "[''--no-sandbox'', ''--disable-web-security'']"
              "''--disable-web-security''" "''--disable-web-security''"
              "\<lparr>launch = (\<lambda>c. Inr (Browser True, Page False)), pageClose = None,
                browserClose = None\<rparr>"]
        mergedConfigOf_test_options
  by (simp add: DANGEROUS_ARGS_def dangerousArgsOf_def dangerousMessage_def
        newBrowserManager_def)

lemma cleanup_never_raises: "fst (cleanup pptr this) = Inr ()"
  by (simp add: cleanup_def cleanupCaught_def Let_def split: sum.splits option.splits)

lemma cleanup_cancels_idle_timer: "idleTimeout (snd (cleanup pptr this)) = None"
  by (auto simp add: cleanup_def cleanupCaught_def closePage_def closeBrowser_def Let_def
           split: sum.splits option.splits if_splits)

lemma cleanup_nulls_when_close_succeeds:
  assumes "pageClose pptr = None" and "browserClose pptr = None"
  shows "page (snd (cleanup pptr this)) = None \<and> browser (snd (cleanup pptr this)) = None
         \<and> \<not> isReady (snd (cleanup pptr this))"
  using assms
  by (auto simp add: cleanup_def cleanupCaught_def closePage_def closeBrowser_def isReady_def
           Let_def split: sum.splits option.splits if_splits)

lemma initialize_reaches_ready:
  "initialize \<lparr>PUPPETEER_LAUNCH_OPTIONS = None, ALLOW_DANGEROUS = None, uid = Some 1000\<rparr>
     \<lparr>launch = (\<lambda>c. Inr (Browser True, Page False)),
      pageClose = Some (Error ''Close failed''), browserClose = None\<rparr>
     \<lparr>opt_launchOptions = None, opt_allowDangerous = Some True\<rparr>
     newBrowserManager
   = (Inr (),
      \<lparr>browser = Some (Browser True), page = Some (Page False), isInitializing = False,
       idleTimeout = None, previousLaunchOptions = Some emptyOptions,
       launchOptions = emptyOptions, allowDangerous = True,
       previousSharesArgs = False,
       launched = [defaultLaunchArgs],
       logged = [LogInfo ''BrowserManager initialized successfully'']\<rparr>)"
  by (simp add: initialize_def ensureBrowser_def mergedConfigOf_def envConfigOf_def
        parseWarning_def instanceOptionsOf_def launchOptionsAfterMerge_def
        previousAfterMerge_def pushReachesInstance_def stillShared_def rootAdjust_def
        deepMerge_def emptyOptions_def newBrowserManager_def defaultLaunchArgs_def Let_def)

text \<open>
  Claim C8 (the code departs from it). The manager is in the state that
  \<open>initialize({allowDangerous: true})\<close> leaves behind (\<open>initialize_reaches_ready\<close>),
  with an idle timer set, and \<open>page.close()\<close> rejects with "Close failed". Then
  \<open>cleanup\<close> does not raise, cancels the idle timer and logs the error, but the jump
  to the \<open>catch\<close> block skips the assignments that null the handles: the page and
  browser handles are still set and \<open>isReady\<close> is still true. The claim says that
  both handles are null and \<open>isReady\<close> is false after every cleanup.
\<close>

theorem C8_cleanup_keeps_handles_when_close_fails:
  "cleanup
     \<lparr>launch = (\<lambda>c. Inr (Browser True, Page False)),
      pageClose = Some (Error ''Close failed''), browserClose = None\<rparr>
     \<lparr>browser = Some (Browser True), page = Some (Page False), isInitializing = False,
      idleTimeout = Some 1, previousLaunchOptions = Some emptyOptions,
      launchOptions = emptyOptions, allowDangerous = True,
      previousSharesArgs = False,
      launched = [defaultLaunchArgs],
      logged = [LogInfo ''BrowserManager initialized successfully'']\<rparr>
   = (Inr (),
      \<lparr>browser = Some (Browser True), page = Some (Page False), isInitializing = False,
       idleTimeout = None, previousLaunchOptions = Some emptyOptions,
       launchOptions = emptyOptions, allowDangerous = True,
       previousSharesArgs = False,
       launched = [defaultLaunchArgs],
       logged = [LogInfo ''BrowserManager initialized successfully'',
                 LogError ''Error during BrowserManager cleanup:'' ''Close failed'']\<rparr>)
   \<and> isReady
        \<lparr>browser = Some (Browser True), page = Some (Page False), isInitializing = False,
         idleTimeout = None, previousLaunchOptions = Some emptyOptions,
         launchOptions = emptyOptions, allowDangerous = True,
         previousSharesArgs = False,
         launched = [defaultLaunchArgs],
         logged = [LogInfo ''BrowserManager initialized successfully'',
                   LogError ''Error during BrowserManager cleanup:'' ''Close failed'']\<rparr>"
  by (simp add: cleanup_def closePage_def cleanupCaught_def isReady_def)


section \<open>Properties of the session store\<close>

lemma restore_expired:
  assumes "fs (getSessionPath pathJoin sessionId) = Some (SessionJson session)"
      and "timestamp session = Some t" and "now - t > expiryMs"
  shows "restoreSessionCookies pathJoin now faults fs pg sessionId
         = (False,
            (if statFails faults \<or> readFileFails faults \<or> unlinkFails faults then fs
             else fs(getSessionPath pathJoin sessionId := None)),
            pg)"
  using assms by (simp add: restoreSessionCookies_def isExpired_def unlink_def Let_def)

lemma restore_missing:
  assumes "fs (getSessionPath pathJoin sessionId) = None"
  shows "restoreSessionCookies pathJoin now faults fs pg sessionId = (False, fs, pg)"
  using assms by (simp add: restoreSessionCookies_def)

lemma restore_still_expired:
  assumes "fs (getSessionPath pathJoin sessionId) = Some (SessionJson session)"
      and "timestamp session = Some t" and "now - t > expiryMs" and "now \<le> now'"
  shows "fst (restoreSessionCookies pathJoin now' faults fs pg sessionId) = False
         \<and> snd (snd (restoreSessionCookies pathJoin now' faults fs pg sessionId)) = pg"
proof -
  from assms(3,4) have "now' - t > expiryMs" by simp
  with assms(1,2) show ?thesis by (simp add: restore_expired)
qed

lemma restore_applies_only_fresh:
  assumes "fs (getSessionPath pathJoin sessionId) = Some (SessionJson session)"
      and "timestamp session = Some t"
      and "fst (restoreSessionCookies pathJoin now faults fs pg sessionId)
           \<or> snd (snd (restoreSessionCookies pathJoin now faults fs pg sessionId)) \<noteq> pg"
  shows "now - t \<le> expiryMs"
proof (rule ccontr)
  assume "\<not> now - t \<le> expiryMs"
  then have "now - t > expiryMs" by simp
  with assms(1,2) have "restoreSessionCookies pathJoin now faults fs pg sessionId
      = (False,
         (if statFails faults \<or> readFileFails faults \<or> unlinkFails faults then fs
          else fs(getSessionPath pathJoin sessionId := None)),
         pg)"
    by (rule restore_expired)
  with assms(3) show False by simp
qed

text \<open>
  Claim C5 as stated fails. The session file is a day and one millisecond old, so the
  session has expired, and \<open>fs.unlink\<close> rejects. \<open>restoreSessionCookies\<close> swallows
  the rejection and returns false: the expired file is still there.
\<close>

theorem C5_restoreSessionCookies_counterexample:
  "isExpired 86400001 \<lparr>cookies = [(''cf'', ''1'')], localStorage = [], timestamp = Some 0\<rparr>
   \<and> restoreSessionCookies joinRelative 86400001
        \<lparr>statFails = False, readFileFails = False, unlinkFails = True,
         setCookieFails = False, evaluateOnNewDocumentFails = False\<rparr>
        [''session-storage/u1.json'' \<mapsto>
           SessionJson \<lparr>cookies = [(''cf'', ''1'')], localStorage = [], timestamp = Some 0\<rparr>]
        \<lparr>pageCookies = [], newDocumentStorage = []\<rparr> ''u1''
      = (False,
         [''session-storage/u1.json'' \<mapsto>
            SessionJson \<lparr>cookies = [(''cf'', ''1'')], localStorage = [], timestamp = Some 0\<rparr>],
         \<lparr>pageCookies = [], newDocumentStorage = []\<rparr>)"
  by (simp add: restoreSessionCookies_def getSessionPath_def joinRelative_def
          SESSION_STORAGE_DIR_def
        isExpired_def expiryMs_def SESSION_EXPIRY_HOURS_def unlink_def Let_def)

text \<open>
  Claim C5, amended. Let the file of a session id hold a stored session whose age
  \<open>now - timestamp\<close> exceeds the expiry window. Then \<open>restoreSessionCookies\<close> returns
  false and leaves the page as it was; it removes the file when \<open>fs.stat\<close>,
  \<open>fs.readFile\<close> and \<open>fs.unlink\<close> all succeed, and leaves the file system as it was
  when one of them rejects. On the resulting file system every
  \<open>restoreSessionCookies\<close> for that id, with any page, returns false and leaves the
  page as it was: at any clock reading when the file was removed, and at the same or a
  later clock reading when it was not. Whenever a call on a stored session returns true
  or changes the page (sets cookies or registers the local storage), the age of the
  session was within the expiry window.
\<close>

theorem C5_restoreSessionCookies_expired:
  "(fs (getSessionPath pathJoin sessionId) = Some (SessionJson session)
      \<and> timestamp session = Some t \<and> now - t > expiryMs
    \<longrightarrow> fst (restoreSessionCookies pathJoin now faults fs pg sessionId) = False
        \<and> snd (snd (restoreSessionCookies pathJoin now faults fs pg sessionId)) = pg
        \<and> fst (snd (restoreSessionCookies pathJoin now faults fs pg sessionId))
            = (if statFails faults \<or> readFileFails faults \<or> unlinkFails faults then fs
               else fs(getSessionPath pathJoin sessionId := None))
        \<and> (\<forall>now' faults' pg'.
              now \<le> now'
                \<or> \<not> (statFails faults \<or> readFileFails faults \<or> unlinkFails faults) \<longrightarrow>
              fst (restoreSessionCookies pathJoin now' faults'
                     (fst (snd (restoreSessionCookies pathJoin now faults fs pg sessionId)))
                     pg' sessionId) = False
              \<and> snd (snd (restoreSessionCookies pathJoin now' faults'
                     (fst (snd (restoreSessionCookies pathJoin now faults fs pg sessionId)))
                     pg' sessionId)) = pg'))
   \<and> (fs (getSessionPath pathJoin sessionId) = Some (SessionJson session)
        \<and> timestamp session = Some t
        \<and> (fst (restoreSessionCookies pathJoin now faults fs pg sessionId)
             \<or> snd (snd (restoreSessionCookies pathJoin now faults fs pg sessionId)) \<noteq> pg)
      \<longrightarrow> now - t \<le> expiryMs)"
proof -
  let ?p = "getSessionPath pathJoin sessionId"
  {
    assume f: "fs ?p = Some (SessionJson session)"
      and ts: "timestamp session = Some t" and old: "now - t > expiryMs"
    have r: "restoreSessionCookies pathJoin now faults fs pg sessionId
             = (False,
                (if statFails faults \<or> readFileFails faults \<or> unlinkFails faults then fs
                 else fs(?p := None)),
                pg)"
      using f ts old by (rule restore_expired)
    have later: "fst (restoreSessionCookies pathJoin now' faults' fs' pg' sessionId) = False
                 \<and> snd (snd (restoreSessionCookies pathJoin now' faults' fs' pg' sessionId)) = pg'"
      if "(now \<le> now' \<and> fs' = fs) \<or> fs' = fs(?p := None)" for now' faults' pg' fs'
    proof (cases "fs' = fs(?p := None)")
      case True
      then have "fs' ?p = None" by simp
      then show ?thesis by (simp add: restore_missing)
    next
      case False
      with that have "now \<le> now'" and "fs' = fs" by auto
      with f ts old show ?thesis by (simp add: restore_still_expired)
    qed
    have "fst (restoreSessionCookies pathJoin now faults fs pg sessionId) = False
        \<and> snd (snd (restoreSessionCookies pathJoin now faults fs pg sessionId)) = pg
        \<and> fst (snd (restoreSessionCookies pathJoin now faults fs pg sessionId))
            = (if statFails faults \<or> readFileFails faults \<or> unlinkFails faults then fs
               else fs(?p := None))
        \<and> (\<forall>now' faults' pg'.
              now \<le> now'
                \<or> \<not> (statFails faults \<or> readFileFails faults \<or> unlinkFails faults) \<longrightarrow>
              fst (restoreSessionCookies pathJoin now' faults'
                     (fst (snd (restoreSessionCookies pathJoin now faults fs pg sessionId)))
                     pg' sessionId) = False
              \<and> snd (snd (restoreSessionCookies pathJoin now' faults'
                     (fst (snd (restoreSessionCookies pathJoin now faults fs pg sessionId)))
                     pg' sessionId)) = pg')"
      unfolding r using later by simp
  }
  then show ?thesis
    using restore_applies_only_fresh [of fs pathJoin sessionId session t now faults pg]
    by blast
qed

theorem C5_restoreSessionCookies_expired_witness:
  "[''session-storage/u1.json'' \<mapsto>
      SessionJson \<lparr>cookies = [(''cf'', ''1'')], localStorage = [], timestamp = Some 0\<rparr>]
     (getSessionPath joinRelative ''u1'')
     = Some (SessionJson \<lparr>cookies = [(''cf'', ''1'')], localStorage = [], timestamp = Some 0\<rparr>)
   \<and> 86400001 - 0 > expiryMs
   \<and> restoreSessionCookies joinRelative 86400001
        \<lparr>statFails = False, readFileFails = False, unlinkFails = False,
         setCookieFails = False, evaluateOnNewDocumentFails = False\<rparr>
        [''session-storage/u1.json'' \<mapsto>
           SessionJson \<lparr>cookies = [(''cf'', ''1'')], localStorage = [], timestamp = Some 0\<rparr>]
        \<lparr>pageCookies = [], newDocumentStorage = []\<rparr> ''u1''
      = (False, Map.empty, \<lparr>pageCookies = [], newDocumentStorage = []\<rparr>)
   \<and> fst (restoreSessionCookies joinRelative 86400002
        \<lparr>statFails = False, readFileFails = False, unlinkFails = False,
         setCookieFails = False, evaluateOnNewDocumentFails = False\<rparr>
        Map.empty \<lparr>pageCookies = [], newDocumentStorage = []\<rparr> ''u1'') = False
   \<and> restoreSessionCookies joinRelative 86400000
        \<lparr>statFails = False, readFileFails = False, unlinkFails = False,
         setCookieFails = False, evaluateOnNewDocumentFails = False\<rparr>
        [''session-storage/u1.json'' \<mapsto>
           SessionJson \<lparr>cookies = [(''cf'', ''1'')], localStorage = [], timestamp = Some 0\<rparr>]
        \<lparr>pageCookies = [], newDocumentStorage = []\<rparr> ''u1''
      = (True,
         [''session-storage/u1.json'' \<mapsto>
            SessionJson \<lparr>cookies = [(''cf'', ''1'')], localStorage = [], timestamp = Some 0\<rparr>],
         \<lparr>pageCookies = [(''cf'', ''1'')], newDocumentStorage = []\<rparr>)
   \<and> 86400000 - 0 \<le> expiryMs"
proof -
  have fresh: "restoreSessionCookies joinRelative 86400000
        \<lparr>statFails = False, readFileFails = False, unlinkFails = False,
         setCookieFails = False, evaluateOnNewDocumentFails = False\<rparr>
        [''session-storage/u1.json'' \<mapsto>
           SessionJson \<lparr>cookies = [(''cf'', ''1'')], localStorage = [], timestamp = Some 0\<rparr>]
        \<lparr>pageCookies = [], newDocumentStorage = []\<rparr> ''u1''
      = (True,
         [''session-storage/u1.json'' \<mapsto>
            SessionJson \<lparr>cookies = [(''cf'', ''1'')], localStorage = [], timestamp = Some 0\<rparr>],
         \<lparr>pageCookies = [(''cf'', ''1'')], newDocumentStorage = []\<rparr>)"
    by (simp add: restoreSessionCookies_def getSessionPath_def joinRelative_def
          SESSION_STORAGE_DIR_def
          isExpired_def expiryMs_def SESSION_EXPIRY_HOURS_def setCookie_def Let_def)
  have old: "restoreSessionCookies joinRelative 86400001
        \<lparr>statFails = False, readFileFails = False, unlinkFails = False,
         setCookieFails = False, evaluateOnNewDocumentFails = False\<rparr>
        [''session-storage/u1.json'' \<mapsto>
           SessionJson \<lparr>cookies = [(''cf'', ''1'')], localStorage = [], timestamp = Some 0\<rparr>]
        \<lparr>pageCookies = [], newDocumentStorage = []\<rparr> ''u1''
      = (False, Map.empty, \<lparr>pageCookies = [], newDocumentStorage = []\<rparr>)"
    by (simp add: restoreSessionCookies_def getSessionPath_def joinRelative_def
          SESSION_STORAGE_DIR_def
          isExpired_def expiryMs_def SESSION_EXPIRY_HOURS_def unlink_def Let_def)
  show ?thesis
    using fresh old C5_restoreSessionCookies_expired
            [of "[''session-storage/u1.json'' \<mapsto>
                   SessionJson \<lparr>cookies = [(''cf'', ''1'')], localStorage = [],
                                timestamp = Some 0\<rparr>]"
                joinRelative "''u1''"
                "\<lparr>cookies = [(''cf'', ''1'')], localStorage = [], timestamp = Some 0\<rparr>"
                0 86400001
                "\<lparr>statFails = False, readFileFails = False, unlinkFails = False,
                  setCookieFails = False, evaluateOnNewDocumentFails = False\<rparr>"
                "\<lparr>pageCookies = [], newDocumentStorage = []\<rparr>"]
          C5_restoreSessionCookies_expired
            [of "[''session-storage/u1.json'' \<mapsto>
                   SessionJson \<lparr>cookies = [(''cf'', ''1'')], localStorage = [],
                                timestamp = Some 0\<rparr>]"
                joinRelative "''u1''"
                "\<lparr>cookies = [(''cf'', ''1'')], localStorage = [], timestamp = Some 0\<rparr>"
                0 86400000
                "\<lparr>statFails = False, readFileFails = False, unlinkFails = False,
                  setCookieFails = False, evaluateOnNewDocumentFails = False\<rparr>"
                "\<lparr>pageCookies = [], newDocumentStorage = []\<rparr>"]
    by (simp add: getSessionPath_def joinRelative_def SESSION_STORAGE_DIR_def expiryMs_def
          SESSION_EXPIRY_HOURS_def Let_def)
qed


section \<open>Properties of the chat tool\<close>

lemma appendHistory_concat:
  "appendHistory conversationPrompt history
   = conversationPrompt @ concat (map promptLine history)"
  by (induction history arbitrary: conversationPrompt) simp_all

lemma chatPerplexity_unfolded:
  "chatPerplexity randomUUID performSearch getChatHistory saveChatMessage toolArgs w =
     (let chat_id = (case arg_chat_id toolArgs of None \<Rightarrow> randomUUID | Some c \<Rightarrow> c);
          history = fst (getChatHistory w chat_id);
          w1 = snd (getChatHistory w chat_id);
          userMessage = \<lparr>role = User, content = arg_message toolArgs\<rparr>;
          w2 = saveChatMessage w1 chat_id userMessage;
          prompt = concat (map promptLine (arrays w2 history @ [userMessage]));
          options = \<lparr>opt_launchOptions = arg_launchOptions toolArgs,
                     opt_allowDangerous = arg_allowDangerous toolArgs\<rparr>
      in (performSearch w2 prompt options, w2,
          [GetChatHistory chat_id, SaveChatMessage chat_id userMessage,
           PerformSearch prompt options]))"
  by (simp add: chatPerplexity_def Let_def appendHistory_concat promptLine_def)

text \<open>
  Claim C10 as stated fails. The store keeps the conversation "c1" in one array, which
  holds the message "hi"; \<open>getChatHistory\<close> returns that array and
  \<open>saveChatMessage\<close> appends to it. The prompt of a call with the message "more" has
  the line of the new user message twice.
\<close>

theorem C10_chatPerplexity_counterexample:
  "fst (chatPerplexity ''uuid-1'' (\<lambda>w prompt options. prompt)
          liveGetChatHistory liveSaveChatMessage
          \<lparr>arg_message = ''more'', arg_chat_id = Some ''c1'', arg_launchOptions = None,
           arg_allowDangerous = None\<rparr>
          \<lparr>arrays = (\<lambda>a. [])(0 := [\<lparr>role = User, content = ''hi''\<rparr>]),
           store = (\<lambda>c. 0)\<rparr>)
   = ''User: hi'' @ newline @ ''User: more'' @ newline @ ''User: more'' @ newline"
  by (simp add: chatPerplexity_unfolded liveGetChatHistory_def liveSaveChatMessage_def
        promptLine_def Let_def)

text \<open>
  Claim C10, amended. The tool reads the history of the conversation, then saves the
  user message, then calls \<open>performSearch\<close>, in this order and once each; the
  conversation id is the given \<open>chat_id\<close>, or the random UUID when none is given, and
  the search runs in the world that already holds the saved user message. The prompt is
  one line per message of the array that \<open>getChatHistory\<close> returned, as that array is
  after the save, followed by one line for the new user message. So whenever
  \<open>saveChatMessage\<close> leaves that array as it was, the prompt is one line per
  message of the history read before the save, in its order ("User: " or
  "Assistant: ", the content, a newline), followed by the line of the new user
  message, each exactly once.
\<close>

theorem C10_chatPerplexity_prompt:
  "chatPerplexity randomUUID performSearch getChatHistory saveChatMessage toolArgs w =
     (let chat_id = (case arg_chat_id toolArgs of None \<Rightarrow> randomUUID | Some c \<Rightarrow> c);
          history = fst (getChatHistory w chat_id);
          w1 = snd (getChatHistory w chat_id);
          userMessage = \<lparr>role = User, content = arg_message toolArgs\<rparr>;
          w2 = saveChatMessage w1 chat_id userMessage;
          prompt = concat (map promptLine (arrays w2 history @ [userMessage]));
          options = \<lparr>opt_launchOptions = arg_launchOptions toolArgs,
                     opt_allowDangerous = arg_allowDangerous toolArgs\<rparr>
      in (performSearch w2 prompt options, w2,
          [GetChatHistory chat_id, SaveChatMessage chat_id userMessage,
           PerformSearch prompt options]))
   \<and> (let chat_id = (case arg_chat_id toolArgs of None \<Rightarrow> randomUUID | Some c \<Rightarrow> c);
           history = fst (getChatHistory w chat_id);
           w1 = snd (getChatHistory w chat_id);
           userMessage = \<lparr>role = User, content = arg_message toolArgs\<rparr>;
           w2 = saveChatMessage w1 chat_id userMessage;
           options = \<lparr>opt_launchOptions = arg_launchOptions toolArgs,
                      opt_allowDangerous = arg_allowDangerous toolArgs\<rparr>
       in arrays w2 history = arrays w1 history \<longrightarrow>
            snd (snd (chatPerplexity randomUUID performSearch getChatHistory saveChatMessage
                        toolArgs w))
            = [GetChatHistory chat_id, SaveChatMessage chat_id userMessage,
               PerformSearch
                 (concat (map promptLine (arrays w1 history)) @ promptLine userMessage)
                 options])"
  by (simp add: chatPerplexity_unfolded Let_def)

theorem C10_chatPerplexity_prompt_witness:
  "fst (chatPerplexity ''uuid-1'' (\<lambda>w prompt options. (prompt, fst (store w) ''c1''))
          snapshotGetChatHistory snapshotSaveChatMessage
          \<lparr>arg_message = ''more'', arg_chat_id = Some ''c1'', arg_launchOptions = None,
           arg_allowDangerous = None\<rparr>
          \<lparr>arrays = (\<lambda>a. []),
           store = ((\<lambda>c. [])(''c1'' := [\<lparr>role = User, content = ''hi''\<rparr>,
                                          \<lparr>role = Assistant, content = ''hello''\<rparr>]), 0)\<rparr>)
   = (''User: hi'' @ newline @ ''Assistant: hello'' @ newline @ ''User: more'' @ newline,
      [\<lparr>role = User, content = ''hi''\<rparr>, \<lparr>role = Assistant, content = ''hello''\<rparr>,
       \<lparr>role = User, content = ''more''\<rparr>])
   \<and> snd (snd (chatPerplexity ''uuid-1'' (\<lambda>w prompt options. prompt)
          snapshotGetChatHistory snapshotSaveChatMessage
          \<lparr>arg_message = ''first'', arg_chat_id = None, arg_launchOptions = None,
           arg_allowDangerous = None\<rparr>
          \<lparr>arrays = (\<lambda>a. []), store = ((\<lambda>c. []), 0)\<rparr>))
   = [GetChatHistory ''uuid-1'',
      SaveChatMessage ''uuid-1'' \<lparr>role = User, content = ''first''\<rparr>,
      PerformSearch (''User: first'' @ newline)
        \<lparr>opt_launchOptions = None, opt_allowDangerous = None\<rparr>]"
  using C10_chatPerplexity_prompt
          [of "''uuid-1''" "\<lambda>w prompt options. (prompt, fst (store w) ''c1'')"
              snapshotGetChatHistory snapshotSaveChatMessage
              "\<lparr>arg_message = ''more'', arg_chat_id = Some ''c1'', arg_launchOptions = None,
                arg_allowDangerous = None\<rparr>"
              "\<lparr>arrays = (\<lambda>a. []),
                store = ((\<lambda>c. [])(''c1'' := [\<lparr>role = User, content = ''hi''\<rparr>,
                                               \<lparr>role = Assistant, content = ''hello''\<rparr>]), 0)\<rparr>"]
        C10_chatPerplexity_prompt
          [of "''uuid-1''" "\<lambda>w prompt options. prompt"
              snapshotGetChatHistory snapshotSaveChatMessage
              "\<lparr>arg_message = ''first'', arg_chat_id = None, arg_launchOptions = None,
                arg_allowDangerous = None\<rparr>"
              "\<lparr>arrays = (\<lambda>a. []), store = ((\<lambda>c. []), 0)\<rparr>"]
  by (simp add: snapshotGetChatHistory_def snapshotSaveChatMessage_def promptLine_def Let_def)

end
